theory Spec2Isabelle
  imports Main "HOL-Library.AList"
begin

section \<open>JavaScript values\<close>

text \<open>
  The recipe application keeps recipes, favorites, reviews and drafts as plain JavaScript
  objects and stores them as JSON text in \<^verbatim>\<open>localStorage\<close>. A value is one of the
  JSON-shaped JavaScript values. A number is an IEEE double: the model holds the doubles
  that are integers (\<open>JNum n\<close>, where \<open>n\<close> is exactly representable: every integer up to
  \<open>2 ^ 53\<close> in magnitude, and the more widely spaced ones beyond), \<^verbatim>\<open>NaN\<close> and the two
  infinities; fractions are not represented. A string is its UTF-8 byte sequence, so an
  ASCII character is one \<open>char\<close>. An object is the list of its own properties in insertion
  order; a property is read with \<open>map_of\<close> and written with \<open>AList.update\<close>, which
  overwrites in place or appends.
\<close>

datatype jsval =
    JUndefined
  | JNull
  | JBool bool
  | JNum int
  | JNaN
  | JInfinity
  | JNegInfinity
  | JStr string
  | JArr "jsval list"
  | JObj "(string \<times> jsval) list"

datatype error =
    TypeError
  | SyntaxError
  | StorageError
  | RemoteError jsval

text \<open>Sequencing of computations that may throw, and \<^verbatim>\<open>try { ... } catch { ... }\<close>.\<close>

fun and_then :: "error + 'a \<Rightarrow> ('a \<Rightarrow> error + 'b) \<Rightarrow> error + 'b" where
  "and_then (Inl e) f = Inl e"
| "and_then (Inr v) f = f v"

fun try_catch :: "error + 'a \<Rightarrow> (error \<Rightarrow> error + 'a) \<Rightarrow> error + 'a" where
  "try_catch (Inl e) h = h e"
| "try_catch (Inr v) h = Inr v"

text \<open>Truthiness, as \<^verbatim>\<open>!x\<close>, \<^verbatim>\<open>x || d\<close> and \<^verbatim>\<open>if (x)\<close> see it.\<close>

fun truthy :: "jsval \<Rightarrow> bool" where
  "truthy JUndefined = False"
| "truthy JNull = False"
| "truthy (JBool b) = b"
| "truthy (JNum n) = (n \<noteq> 0)"
| "truthy JNaN = False"
| "truthy JInfinity = True"
| "truthy JNegInfinity = True"
| "truthy (JStr s) = (s \<noteq> [])"
| "truthy (JArr xs) = True"
| "truthy (JObj fs) = True"

definition js_or :: "jsval \<Rightarrow> jsval \<Rightarrow> jsval" where
  "js_or a b = (if truthy a then a else b)"

text \<open>
  Property access \<^verbatim>\<open>v.k\<close>. It throws a TypeError on \<^verbatim>\<open>null\<close> and \<^verbatim>\<open>undefined\<close>.
  The sources read only named data properties (\<^verbatim>\<open>id\<close>, \<^verbatim>\<open>name\<close>, \<^verbatim>\<open>items\<close>, ...),
  never an index, \<^verbatim>\<open>length\<close> or a prototype member, so on arrays and primitives the
  result is \<^verbatim>\<open>undefined\<close>. \<open>opt_prop\<close> is the optional chaining \<^verbatim>\<open>v?.k\<close>, and
  \<open>field\<close> the same lookup as a total function, for stating properties of objects.
\<close>

fun field :: "jsval \<Rightarrow> string \<Rightarrow> jsval" where
  "field (JObj fs) k = (case map_of fs k of None \<Rightarrow> JUndefined | Some v \<Rightarrow> v)"
| "field v k = JUndefined"

fun nullish :: "jsval \<Rightarrow> bool" where
  "nullish JUndefined = True"
| "nullish JNull = True"
| "nullish v = False"

definition get_prop :: "jsval \<Rightarrow> string \<Rightarrow> error + jsval" where
  "get_prop v k = (if nullish v then Inl TypeError else Inr (field v k))"

definition opt_prop :: "jsval \<Rightarrow> string \<Rightarrow> jsval" where
  "opt_prop v k = (if nullish v then JUndefined else field v k)"

fun isArray :: "jsval \<Rightarrow> bool" where
  "isArray (JArr xs) = True"
| "isArray v = False"

text \<open>
  Strict equality \<^verbatim>\<open>a === b\<close>, where at least one side has just been decoded from
  stored JSON text, as in every comparison of the sources: two objects or arrays are then
  never the same reference, and \<^verbatim>\<open>NaN\<close> equals nothing.
\<close>

fun strict_eq :: "jsval \<Rightarrow> jsval \<Rightarrow> bool" where
  "strict_eq JUndefined JUndefined = True"
| "strict_eq JNull JNull = True"
| "strict_eq (JBool a) (JBool b) = (a = b)"
| "strict_eq (JNum a) (JNum b) = (a = b)"
| "strict_eq JInfinity JInfinity = True"
| "strict_eq JNegInfinity JNegInfinity = True"
| "strict_eq (JStr a) (JStr b) = (a = b)"
| "strict_eq a b = False"

text \<open>Decimal rendering of a natural number (\<^verbatim>\<open>Date.now().toString()\<close>, array indices).\<close>

fun show_nat :: "nat \<Rightarrow> string" where
  "show_nat n =
     (if n < 10 then [''0123456789'' ! n]
      else show_nat (n div 10) @ [''0123456789'' ! (n mod 10)])"

declare show_nat.simps [simp del]

text \<open>
  The double nearest to an integer, ties to the even significand; from \<open>2 ^ 1024\<close> on
  the result is infinite. \<open>round_double\<close> rounds a magnitude to 53 significant bits.
\<close>

fun bit_length :: "nat \<Rightarrow> nat" where
  "bit_length n = (if n = 0 then 0 else Suc (bit_length (n div 2)))"

declare bit_length.simps [simp del]

definition round_double :: "nat \<Rightarrow> nat" where
  "round_double m =
     (if m < 2 ^ 53 then m
      else let e = bit_length m - 53; q = m div 2 ^ e; r = m mod 2 ^ e; h = 2 ^ (e - 1)
           in (if h < r \<or> (r = h \<and> odd q) then q + 1 else q) * 2 ^ e)"

definition to_number :: "int \<Rightarrow> jsval" where
  "to_number n =
     (let m = round_double (nat \<bar>n\<bar>)
      in if 2 ^ 1024 \<le> m then (if n < 0 then JNegInfinity else JInfinity)
         else JNum (if n < 0 then - int m else int m))"

text \<open>
  \<^verbatim>\<open>Number.prototype.toString\<close> of a positive double \<open>x\<close> that is an integer. The digits
  are those of the shortest decimal that rounds to \<open>x\<close>, the nearest to \<open>x\<close> if
  there are several: \<open>shortest_from x L k\<close> looks for it among the decimals with \<open>k\<close>,
  \<open>k + 1\<close>, ... significant digits, \<open>L\<close> being the number of digits of \<open>x\<close>. Below
  \<open>2 ^ 53\<close> that decimal is \<open>x\<close> itself. From \<open>10 ^ 21\<close> on the digits are written in
  exponent notation.
\<close>

function shortest_from :: "nat \<Rightarrow> nat \<Rightarrow> nat \<Rightarrow> nat" where
  "shortest_from x L k =
     (if L \<le> k then x
      else if to_number (int ((x div 10 ^ (L - k)) * 10 ^ (L - k))) = JNum (int x) \<and>
              to_number (int ((x div 10 ^ (L - k)) * 10 ^ (L - k) + 10 ^ (L - k))) = JNum (int x)
      then (let lo = (x div 10 ^ (L - k)) * 10 ^ (L - k); hi = lo + 10 ^ (L - k)
            in if x - lo < hi - x then lo
               else if hi - x < x - lo then hi
               else if even (x div 10 ^ (L - k)) then lo else hi)
      else if to_number (int ((x div 10 ^ (L - k)) * 10 ^ (L - k))) = JNum (int x)
      then (x div 10 ^ (L - k)) * 10 ^ (L - k)
      else if to_number (int ((x div 10 ^ (L - k)) * 10 ^ (L - k) + 10 ^ (L - k))) = JNum (int x)
      then (x div 10 ^ (L - k)) * 10 ^ (L - k) + 10 ^ (L - k)
      else shortest_from x L (Suc k))"
  by pat_completeness auto
termination
  by (relation "measure (\<lambda>(x, L, k). L - k)") auto

declare shortest_from.simps [simp del]

definition shortest :: "nat \<Rightarrow> nat" where
  "shortest x = (if x < 2 ^ 53 then x else shortest_from x (length (show_nat x)) 1)"

definition show_double :: "nat \<Rightarrow> string" where
  "show_double x =
     (let ds = show_nat (shortest x);
          sig = rev (dropWhile (\<lambda>d. d = CHR ''0'') (rev ds))
      in if shortest x < 10 ^ 21 then ds
         else take 1 sig @ (if 1 < length sig then ''.'' @ drop 1 sig else [])
              @ ''e+'' @ show_nat (length ds - 1))"

text \<open>
  \<^verbatim>\<open>String(v)\<close>, as template literals and \<^verbatim>\<open>parseInt\<close> apply it. An array is
  rendered as its elements joined by commas, \<^verbatim>\<open>null\<close> and \<^verbatim>\<open>undefined\<close> elements as the
  empty string.
\<close>

fun join_comma :: "string list \<Rightarrow> string" where
  "join_comma [] = []"
| "join_comma [s] = s"
| "join_comma (s # ss) = s @ '','' @ join_comma ss"

fun to_string :: "jsval \<Rightarrow> string" where
  "to_string JUndefined = ''undefined''"
| "to_string JNull = ''null''"
| "to_string (JBool b) = (if b then ''true'' else ''false'')"
| "to_string (JNum n) =
     (if n < 0 then CHR ''-'' # show_double (nat (- n)) else show_double (nat n))"
| "to_string JNaN = ''NaN''"
| "to_string JInfinity = ''Infinity''"
| "to_string JNegInfinity = ''-Infinity''"
| "to_string (JStr s) = s"
| "to_string (JArr xs) = join_comma (map (\<lambda>x. if nullish x then [] else to_string x) xs)"
| "to_string (JObj fs) = ''[object Object]''"












text \<open>
  The UTF-16 code units of a string, each as a string of its own: a character of up to
  three bytes is one unit, a character of four bytes is a pair of surrogates, each written
  in the three-byte form of its code.
\<close>

definition unit_length :: "char \<Rightarrow> nat" where
  "unit_length c =
     (if (of_char c :: nat) < 0xC0 then 1
      else if (of_char c :: nat) < 0xE0 then 2
      else if (of_char c :: nat) < 0xF0 then 3 else 4)"

definition three_bytes :: "nat \<Rightarrow> string" where
  "three_bytes u =
     [char_of (0xE0 + u div 4096), char_of (0x80 + (u div 64) mod 64), char_of (0x80 + u mod 64)]"

definition surrogates :: "string \<Rightarrow> string list" where
  "surrogates bs =
     (let cp = foldl (\<lambda>a b. a * 64 + (of_char b :: nat) mod 64) (of_char (hd bs) mod 8) (tl bs)
      in [three_bytes (0xD800 + (cp - 0x10000) div 1024),
          three_bytes (0xDC00 + (cp - 0x10000) mod 1024)])"

function code_units :: "string \<Rightarrow> string list" where
  "code_units [] = []"
| "code_units (c # cs) =
     (if unit_length c = 4 then surrogates (c # take 3 cs) @ code_units (drop 3 cs)
      else (c # take (unit_length c - 1) cs) # code_units (drop (unit_length c - 1) cs))"
  by pat_completeness auto
termination
  by (relation "measure length") auto

declare code_units.simps(2) [simp del]

text \<open>
  The own enumerable properties that the spread \<^verbatim>\<open>{...v}\<close> copies: the properties of
  an object, the indexed elements of an array, the indexed code units of a string, and
  nothing for the other primitives.
\<close>

fun spread :: "jsval \<Rightarrow> (string \<times> jsval) list" where
  "spread (JObj fs) = fs"
| "spread (JArr xs) = zip (map show_nat [0..<length xs]) xs"
| "spread (JStr s) = zip (map show_nat [0..<length (code_units s)]) (map JStr (code_units s))"
| "spread v = []"

section \<open>JSON text and the local store\<close>

text \<open>
  \<open>ser v\<close> is the value that \<^verbatim>\<open>JSON.parse(JSON.stringify(v))\<close> gives back:
  \<^verbatim>\<open>undefined\<close> has no JSON text, a property holding \<^verbatim>\<open>undefined\<close> is left out,
  and \<^verbatim>\<open>undefined\<close> inside an array and \<^verbatim>\<open>NaN\<close> and the infinities anywhere become
  \<^verbatim>\<open>null\<close>.
\<close>

primrec ser :: "jsval \<Rightarrow> jsval option" where
  "ser JUndefined = None"
| "ser JNull = Some JNull"
| "ser (JBool b) = Some (JBool b)"
| "ser (JNum n) = Some (JNum n)"
| "ser JNaN = Some JNull"
| "ser JInfinity = Some JNull"
| "ser JNegInfinity = Some JNull"
| "ser (JStr s) = Some (JStr s)"
| "ser (JArr xs) =
     Some (JArr (map (\<lambda>r. case r of None \<Rightarrow> JNull | Some j \<Rightarrow> j) (map ser xs)))"
| "ser (JObj fs) =
     Some (JObj (List.map_filter (\<lambda>(k, r). map_option (Pair k) r) (map (map_prod id ser) fs)))"

text \<open>
  A stored string is represented by what \<^verbatim>\<open>JSON.parse\<close> makes of it: \<open>Json v\<close> is
  the text \<^verbatim>\<open>JSON.stringify(v)\<close> (for \<^verbatim>\<open>undefined\<close> the string "undefined" that
  \<^verbatim>\<open>setItem\<close> then stores, which does not decode), and \<open>Raw s\<close> is any other string
  \<open>s\<close>, one that is not JSON: the empty string, an ISO time stamp, damaged content.
  Decoding what was encoded is \<open>ser\<close>; decoding anything else throws a SyntaxError.
\<close>

datatype stext = Json jsval | Raw string

definition JSON_stringify :: "jsval \<Rightarrow> stext" where
  "JSON_stringify v = Json v"

fun JSON_parse :: "stext \<Rightarrow> error + jsval" where
  "JSON_parse (Json v) = (case ser v of None \<Rightarrow> Inl SyntaxError | Some j \<Rightarrow> Inr j)"
| "JSON_parse (Raw s) = Inl SyntaxError"

text \<open>The values that come back unchanged: all but \<^verbatim>\<open>undefined\<close>, \<^verbatim>\<open>NaN\<close> and the
  infinities.\<close>

fun json_ok :: "jsval \<Rightarrow> bool" where
  "json_ok JUndefined = False"
| "json_ok JNaN = False"
| "json_ok JInfinity = False"
| "json_ok JNegInfinity = False"
| "json_ok (JArr xs) = (\<forall>x \<in> set xs. json_ok x)"
| "json_ok (JObj fs) = (\<forall>p \<in> set fs. json_ok (snd p))"
| "json_ok v = True"

text \<open>An element of a stored array as it is read back: what has no JSON text is
  \<^verbatim>\<open>null\<close>.\<close>

definition decoded :: "jsval \<Rightarrow> jsval" where
  "decoded v = (case ser v of None \<Rightarrow> JNull | Some j \<Rightarrow> j)"

text \<open>
  \<^verbatim>\<open>localStorage\<close>: a map from keys to strings. Reading throws when the store cannot
  be accessed, writing throws when it cannot be accessed or is full.
\<close>

record storage =
  items :: "string \<rightharpoonup> stext"
  readable :: bool
  writable :: bool

definition getItem :: "storage \<Rightarrow> string \<Rightarrow> error + stext option" where
  "getItem st key = (if readable st then Inr (items st key) else Inl StorageError)"

definition setItem :: "storage \<Rightarrow> string \<Rightarrow> stext \<Rightarrow> error + storage" where
  "setItem st key t =
     (if writable st then Inr (st\<lparr>items := (items st)(key \<mapsto> t)\<rparr>) else Inl StorageError)"

text \<open>\<^verbatim>\<open>localStorage.getItem(KEY) || "[]"\<close>: the default replaces a missing item and the
  empty string, the two falsy results of \<^verbatim>\<open>getItem\<close>.\<close>

definition or_text :: "stext option \<Rightarrow> stext \<Rightarrow> stext" where
  "or_text item d = (case item of None \<Rightarrow> d | Some t \<Rightarrow> if t = Raw [] then d else t)"

section \<open>Draft storage (utils/draftStorage)\<close>

definition DRAFT_KEY_PREFIX :: string where
  "DRAFT_KEY_PREFIX = ''recipe_draft_''"

definition DRAFT_TIMESTAMP_KEY :: string where
  "DRAFT_TIMESTAMP_KEY = ''recipe_draft_timestamp''"

definition USER_PROFILE_KEY :: string where
  "USER_PROFILE_KEY = ''user_profile''"

definition REVIEWS_KEY :: string where
  "REVIEWS_KEY = ''recipe_reviews''"

definition FAVORITES_KEY :: string where
  "FAVORITES_KEY = ''user_favorites''"

text \<open>The storage key of a draft identifier, as \<^verbatim>\<open>saveDraft\<close>, \<^verbatim>\<open>loadDraft\<close>,
  \<^verbatim>\<open>deleteDraft\<close> and \<^verbatim>\<open>hasDraft\<close> each compute it.\<close>

definition draftKey :: "string \<Rightarrow> string" where
  "draftKey draftId =
     (if draftId = ''user_profile'' then USER_PROFILE_KEY
      else if draftId = FAVORITES_KEY then FAVORITES_KEY
      else DRAFT_KEY_PREFIX @ draftId)"

text \<open>
  \<^verbatim>\<open>saveDraft(draftData, draftId)\<close>; \<open>timestamp\<close> is \<^verbatim>\<open>new Date().toISOString()\<close>.
  The result is the returned flag and the store as the call leaves it.
\<close>

definition saveDraft :: "storage \<Rightarrow> string \<Rightarrow> jsval \<Rightarrow> string \<Rightarrow> bool \<times> storage" where
  "saveDraft st timestamp draftData draftId =
     (let key = draftKey draftId;
          draft = JObj (AList.update ''savedAt'' (JStr timestamp) (spread draftData))
      in case setItem st key (JSON_stringify draft) of
           Inl e \<Rightarrow> (False, st)
         | Inr st1 \<Rightarrow>
             if draftId \<noteq> ''user_profile'' \<and> draftId \<noteq> FAVORITES_KEY
             then (case setItem st1 (key @ ''_'' @ DRAFT_TIMESTAMP_KEY) (Raw timestamp) of
                     Inl e \<Rightarrow> (False, st1)
                   | Inr st2 \<Rightarrow> (True, st2))
             else (True, st1))"

definition loadDraft :: "storage \<Rightarrow> string \<Rightarrow> error + jsval" where
  "loadDraft st draftId =
     try_catch
       (and_then (getItem st (draftKey draftId)) (\<lambda>draftJson.
          case draftJson of
            None \<Rightarrow> Inr JNull
          | Some t \<Rightarrow> if t = Raw [] then Inr JNull else JSON_parse t))
       (\<lambda>e. Inr JNull)"

text \<open>\<^verbatim>\<open>reviews.filter(review => review.user_identifier === userIdentifier)\<close>: not a
  function unless \<open>reviews\<close> is an array, and the callback throws on a \<^verbatim>\<open>null\<close> element.\<close>

fun filter_prop_eq :: "string \<Rightarrow> jsval \<Rightarrow> jsval list \<Rightarrow> error + jsval list" where
  "filter_prop_eq k x [] = Inr []"
| "filter_prop_eq k x (r # rs) =
     and_then (get_prop r k) (\<lambda>v.
     and_then (filter_prop_eq k x rs) (\<lambda>rest.
       Inr (if strict_eq v x then r # rest else rest)))"

fun filter_prop_neq :: "string \<Rightarrow> jsval \<Rightarrow> jsval list \<Rightarrow> error + jsval list" where
  "filter_prop_neq k x [] = Inr []"
| "filter_prop_neq k x (r # rs) =
     and_then (get_prop r k) (\<lambda>v.
     and_then (filter_prop_neq k x rs) (\<lambda>rest.
       Inr (if \<not> strict_eq v x then r # rest else rest)))"

definition loadUserReviews :: "storage \<Rightarrow> jsval \<Rightarrow> error + jsval" where
  "loadUserReviews st userIdentifier =
     try_catch
       (and_then (getItem st REVIEWS_KEY) (\<lambda>item.
        and_then (JSON_parse (or_text item (JSON_stringify (JArr [])))) (\<lambda>reviews.
          case reviews of
            JArr rs \<Rightarrow>
              and_then (filter_prop_eq ''user_identifier'' userIdentifier rs) (\<lambda>found.
                Inr (JArr found))
          | _ \<Rightarrow> Inl TypeError)))
       (\<lambda>e. Inr (JArr []))"

definition saveFavorites :: "storage \<Rightarrow> jsval \<Rightarrow> bool \<times> storage" where
  "saveFavorites st favoritesData =
     (case setItem st FAVORITES_KEY (JSON_stringify favoritesData) of
        Inl e \<Rightarrow> (False, st)
      | Inr st1 \<Rightarrow> (True, st1))"

definition loadFavorites :: "storage \<Rightarrow> error + jsval" where
  "loadFavorites st =
     try_catch
       (and_then (getItem st FAVORITES_KEY) (\<lambda>item.
        and_then (JSON_parse (or_text item (JSON_stringify (JArr [])))) (\<lambda>favoritesData.
          if isArray favoritesData then Inr favoritesData
          else Inr (js_or (opt_prop favoritesData ''items'') (JArr [])))))
       (\<lambda>e. Inr (JArr []))"

text \<open>The clock: \<^verbatim>\<open>Date.now()\<close> in milliseconds and \<^verbatim>\<open>new Date().toISOString()\<close>.\<close>

record clock =
  now :: nat
  iso :: string

fun findIndex_id :: "jsval \<Rightarrow> jsval list \<Rightarrow> error + nat option" where
  "findIndex_id x [] = Inr None"
| "findIndex_id x (fav # favs) =
     and_then (get_prop fav ''id'') (\<lambda>v.
       if strict_eq v x then Inr (Some 0)
       else and_then (findIndex_id x favs) (\<lambda>r. Inr (map_option Suc r)))"

fun some_id :: "jsval \<Rightarrow> jsval list \<Rightarrow> error + bool" where
  "some_id x [] = Inr False"
| "some_id x (fav # favs) =
     and_then (get_prop fav ''id'') (\<lambda>v.
       if strict_eq v x then Inr True else some_id x favs)"

text \<open>
  The entry that \<^verbatim>\<open>addToFavorites\<close> builds. Reading \<^verbatim>\<open>recipe.id\<close>, the first property
  read, throws when the recipe is \<^verbatim>\<open>null\<close> or \<^verbatim>\<open>undefined\<close>; once it has succeeded no
  other read can throw.
\<close>

definition favoriteEntry :: "clock \<Rightarrow> jsval \<Rightarrow> jsval" where
  "favoriteEntry clk recipe = JObj
     [(''id'', js_or (field recipe ''id'') (JNum (int (now clk)))),
      (''name'', js_or (field recipe ''name'') (JStr ''Unnamed Recipe'')),
      (''description'', js_or (field recipe ''description'') (JStr [])),
      (''image_url'', js_or (field recipe ''image_url'') (JStr [])),
      (''category'', js_or (field recipe ''category'') (JStr ''makanan'')),
      (''prep_time'',
         js_or (js_or (field recipe ''prep_time'') (field recipe ''cook_time'')) (JStr ''15'')),
      (''cook_time'', js_or (field recipe ''cook_time'') (JStr ''15'')),
      (''difficulty'', js_or (field recipe ''difficulty'') (JStr ''mudah'')),
      (''average_rating'', js_or (field recipe ''average_rating'') (JNum 0)),
      (''servings'', js_or (field recipe ''servings'') (JNum 4)),
      (''ingredients'', js_or (field recipe ''ingredients'') (JArr [])),
      (''steps'', js_or (field recipe ''steps'') (JArr [])),
      (''added_at'', JStr (iso clk))]"

definition favoriteRecipe :: "clock \<Rightarrow> jsval \<Rightarrow> error + jsval" where
  "favoriteRecipe clk recipe =
     and_then (get_prop recipe ''id'') (\<lambda>rid. Inr (favoriteEntry clk recipe))"

definition addToFavorites :: "storage \<Rightarrow> clock \<Rightarrow> jsval \<Rightarrow> bool \<times> storage" where
  "addToFavorites st clk recipe =
     (case
        and_then (loadFavorites st) (\<lambda>favorites.
        and_then (favoriteRecipe clk recipe) (\<lambda>entry.
        and_then (get_prop recipe ''id'') (\<lambda>rid.
          case favorites of
            JArr favs \<Rightarrow>
              and_then (findIndex_id rid favs) (\<lambda>existingIndex.
                if existingIndex = None
                then and_then
                       (setItem st FAVORITES_KEY (JSON_stringify (JArr (favs @ [entry]))))
                       (\<lambda>st1. Inr (True, st1))
                else Inr (False, st))
          | _ \<Rightarrow> Inl TypeError)))
      of Inl e \<Rightarrow> (False, st) | Inr r \<Rightarrow> r)"

definition removeFromFavorites :: "storage \<Rightarrow> jsval \<Rightarrow> bool \<times> storage" where
  "removeFromFavorites st recipeId =
     (case
        and_then (loadFavorites st) (\<lambda>favorites.
          case favorites of
            JArr favs \<Rightarrow>
              and_then (filter_prop_neq ''id'' recipeId favs) (\<lambda>updatedFavorites.
              and_then (setItem st FAVORITES_KEY (JSON_stringify (JArr updatedFavorites)))
                (\<lambda>st1. Inr (True, st1)))
          | _ \<Rightarrow> Inl TypeError)
      of Inl e \<Rightarrow> (False, st) | Inr r \<Rightarrow> r)"

definition isRecipeFavorited :: "storage \<Rightarrow> jsval \<Rightarrow> error + bool" where
  "isRecipeFavorited st recipeId =
     try_catch
       (and_then (loadFavorites st) (\<lambda>favorites.
          case favorites of
            JArr favs \<Rightarrow> some_id recipeId favs
          | _ \<Rightarrow> Inl TypeError))
       (\<lambda>e. Inr False)"

section \<open>Favorites hook (hooks/useFavorites)\<close>

text \<open>
  \<^verbatim>\<open>toggleFavorite(recipe)\<close> of \<^verbatim>\<open>useToggleFavorite\<close>: the result is \<^verbatim>\<open>true\<close> when
  the recipe was added, \<^verbatim>\<open>false\<close> when it was removed and \<^verbatim>\<open>null\<close> on an error. The body
  has no \<^verbatim>\<open>await\<close>: one call runs from its first statement to its return.
\<close>

definition toggleFavorite :: "storage \<Rightarrow> clock \<Rightarrow> jsval \<Rightarrow> jsval \<times> storage" where
  "toggleFavorite st clk recipe =
     (case and_then (get_prop recipe ''id'') (\<lambda>rid.
             and_then (isRecipeFavorited st rid) (\<lambda>isFavorited. Inr (rid, isFavorited)))
      of Inl err \<Rightarrow> (JNull, st)
       | Inr (rid, isFavorited) \<Rightarrow>
           if isFavorited then (JBool False, snd (removeFromFavorites st rid))
           else (JBool True, snd (addToFavorites st clk recipe)))"

text \<open>Sequences of calls on the favorites, for stating what every reachable store satisfies.\<close>

datatype fav_op = Add clock jsval | Remove jsval | Toggle clock jsval

fun apply_op :: "storage \<Rightarrow> fav_op \<Rightarrow> storage" where
  "apply_op st (Add clk recipe) = snd (addToFavorites st clk recipe)"
| "apply_op st (Remove recipeId) = snd (removeFromFavorites st recipeId)"
| "apply_op st (Toggle clk recipe) = snd (toggleFavorite st clk recipe)"

text \<open>A recipe identifier: a non-empty string, a non-zero integer or \<^verbatim>\<open>true\<close>, the truthy
  primitive values that JSON text keeps as they are. \<^verbatim>\<open>NaN\<close> and the infinities are not
  identifiers.\<close>

fun is_identifier :: "jsval \<Rightarrow> bool" where
  "is_identifier (JStr s) = (s \<noteq> [])"
| "is_identifier (JNum n) = (n \<noteq> 0)"
| "is_identifier (JBool b) = b"
| "is_identifier v = False"

fun identified_op :: "fav_op \<Rightarrow> bool" where
  "identified_op (Add clk recipe) = is_identifier (field recipe ''id'')"
| "identified_op (Remove recipeId) = True"
| "identified_op (Toggle clk recipe) = is_identifier (field recipe ''id'')"

text \<open>The identifiers of the stored entries, and the set property: no identifier twice.\<close>

definition fav_ids :: "jsval list \<Rightarrow> jsval list" where
  "fav_ids favs = map (\<lambda>fav. field fav ''id'') favs"

definition one_entry_per_id :: "storage \<Rightarrow> bool" where
  "one_entry_per_id st =
     (case loadFavorites st of Inr (JArr favs) \<Rightarrow> distinct (fav_ids favs) | _ \<Rightarrow> True)"

section \<open>Review service (services/reviewService)\<close>

text \<open>
  The remote API as one call sees it: every request either resolves with the response
  body (the interceptor returns \<^verbatim>\<open>response.data\<close>) or rejects.
\<close>

record api =
  api_get :: "string \<Rightarrow> error + jsval"
  api_post :: "string \<Rightarrow> jsval \<Rightarrow> error + jsval"
  api_put :: "string \<Rightarrow> jsval \<Rightarrow> error + jsval"
  api_delete :: "string \<Rightarrow> error + jsval"






definition updateReview ::
  "api \<Rightarrow> storage \<Rightarrow> jsval \<Rightarrow> jsval \<Rightarrow> (error + jsval) \<times> storage" where
  "updateReview remote st reviewId reviewData =
     (case api_put remote (''/api/v1/reviews/'' @ to_string reviewId) reviewData of
        Inr response \<Rightarrow> (Inr response, st)
      | Inl err \<Rightarrow> (Inl err, st))"

definition deleteReview :: "api \<Rightarrow> storage \<Rightarrow> jsval \<Rightarrow> (error + jsval) \<times> storage" where
  "deleteReview remote st reviewId =
     (case api_delete remote (''/api/v1/reviews/'' @ to_string reviewId) of
        Inr response \<Rightarrow> (Inr response, st)
      | Inl err \<Rightarrow> (Inl err, st))"

section \<open>Recipe service (services/recipeService)\<close>

text \<open>
  The identifiers that \<^verbatim>\<open>normalizeRecipeData\<close> generates read the clock and
  \<^verbatim>\<open>Math.random()\<close> once for each element that has none: \<open>gen_now i\<close> and
  \<open>gen_random i\<close> are \<^verbatim>\<open>Date.now()\<close> and the rendering of \<^verbatim>\<open>Math.random()\<close>
  at the element of index \<open>i\<close>.
\<close>

record idgen =
  gen_now :: "nat \<Rightarrow> nat"
  gen_random :: "nat \<Rightarrow> string"

fun map_ingredients :: "idgen \<Rightarrow> nat \<Rightarrow> jsval list \<Rightarrow> error + jsval list" where
  "map_ingredients g i [] = Inr []"
| "map_ingredients g i (ingredient # rest) =
     and_then (get_prop ingredient ''id'') (\<lambda>ident.
     and_then (map_ingredients g (Suc i) rest) (\<lambda>rest'.
       Inr (JObj
         [(''id'', js_or ident
             (JStr (''ingredient-'' @ show_nat (gen_now g i) @ ''-'' @ gen_random g i))),
          (''name'', js_or (field ingredient ''name'') (JStr [])),
          (''quantity'', js_or (field ingredient ''quantity'') (JStr []))] # rest')))"

fun map_steps :: "idgen \<Rightarrow> nat \<Rightarrow> jsval list \<Rightarrow> error + jsval list" where
  "map_steps g index [] = Inr []"
| "map_steps g index (step # rest) =
     and_then (get_prop step ''id'') (\<lambda>ident.
     and_then (map_steps g (Suc index) rest) (\<lambda>rest'.
       Inr (JObj
         [(''id'', js_or ident
             (JStr (''step-'' @ show_nat (gen_now g index) @ ''-'' @ gen_random g index))),
          (''step_number'', js_or (field step ''step_number'') (JNum (int index + 1))),
          (''instruction'', js_or (field step ''instruction'') (JStr []))] # rest')))"



section \<open>Notions for stating the properties\<close>

text \<open>
  Every entry has a truthy identifier, as every entry that \<^verbatim>\<open>addToFavorites\<close> writes
  has once the clock is past the epoch, unless the recipe's id is an infinity, which the
  JSON text stores as null.
\<close>

definition truthy_ids :: "storage \<Rightarrow> bool" where
  "truthy_ids st =
     (case loadFavorites st of
        Inr (JArr favs) \<Rightarrow> \<forall>fav \<in> set favs. truthy (field fav ''id'')
      | _ \<Rightarrow> False)"

fun is_infinite :: "jsval \<Rightarrow> bool" where
  "is_infinite JInfinity = True"
| "is_infinite JNegInfinity = True"
| "is_infinite v = False"

fun after_epoch :: "fav_op \<Rightarrow> bool" where
  "after_epoch (Add clk recipe) = (0 < now clk \<and> \<not> is_infinite (field recipe ''id''))"
| "after_epoch (Remove recipeId) = True"
| "after_epoch (Toggle clk recipe) = (0 < now clk \<and> \<not> is_infinite (field recipe ''id''))"

text \<open>
  Deep equality of two values, as a test would compare what was saved with what was
  loaded: arrays element by element, objects property by property whatever the order.
\<close>

fun deep_equal :: "jsval \<Rightarrow> jsval \<Rightarrow> bool" where
  "deep_equal (JArr xs) (JArr ys) = list_all2 deep_equal xs ys"
| "deep_equal (JObj fs) (JObj gs) =
     (set (map fst fs) = set (map fst gs) \<and>
      (\<forall>p \<in> set fs. deep_equal (snd p) (field (JObj gs) (fst p))))"
| "deep_equal a b = (a = b)"


text \<open>
  Two remote ends for the scenarios below: one that rejects every request with a server
  error, and one that cannot be reached for reads and answers a review submission with a
  body that reports failure.
\<close>

definition failing_api :: api where
  "failing_api =
     \<lparr>api_get = (\<lambda>url. Inl (RemoteError (JObj [(''message'', JStr ''Internal Server Error'')]))),
      api_post = (\<lambda>url body. Inl (RemoteError (JObj [(''message'', JStr ''Internal Server Error'')]))),
      api_put = (\<lambda>url body. Inl (RemoteError (JObj [(''message'', JStr ''Internal Server Error'')]))),
      api_delete = (\<lambda>url. Inl (RemoteError (JObj [(''message'', JStr ''Internal Server Error'')])))\<rparr>"







text \<open>A read goes wrong when the store cannot be accessed or the item does not decode.\<close>

definition bad_read :: "storage \<Rightarrow> string \<Rightarrow> bool" where
  "bad_read st key =
     (case getItem st key of
        Inl e \<Rightarrow> True
      | Inr None \<Rightarrow> False
      | Inr (Some t) \<Rightarrow> isl (JSON_parse t))"

section \<open>Properties\<close>

subsection \<open>Throwing and catching\<close>

lemma and_then_Inr_iff:
  "and_then r f = Inr y \<longleftrightarrow> (\<exists>v. r = Inr v \<and> f v = Inr y)"
  by (cases r) simp_all

lemma try_catch_default: "\<exists>v. try_catch r (\<lambda>e. Inr d) = Inr v"
  by (cases r) simp_all

lemma try_catch_Inl: "isl r \<Longrightarrow> try_catch r (\<lambda>e. Inr d) = Inr d"
  by (cases r) simp_all

subsection \<open>JSON values\<close>

lemma ser_None_iff: "ser v = None \<longleftrightarrow> v = JUndefined"
  by (cases v) simp_all

lemma ser_fields_fixed:
  "(\<forall>p \<in> set fs. ser (snd p) = Some (snd p)) \<Longrightarrow>
   List.map_filter (\<lambda>(k, r). map_option (Pair k) r) (map (map_prod id ser) fs) = fs"
  by (induction fs) (auto simp: List.map_filter_simps)

lemma json_ok_ser: "json_ok v \<Longrightarrow> ser v = Some v"
proof (induction v)
  case (JArr xs)
  then have "map (\<lambda>r. case r of None \<Rightarrow> JNull | Some j \<Rightarrow> j) (map ser xs) = xs"
    by (induction xs) auto
  then show ?case by simp
next
  case (JObj fs)
  then have "\<forall>p \<in> set fs. ser (snd p) = Some (snd p)"
    by (auto simp: snds.simps)
  then show ?case by (simp add: ser_fields_fixed)
qed simp_all

lemma ser_json_ok: "ser v = Some j \<Longrightarrow> json_ok j"
proof (induction v arbitrary: j)
  case (JArr xs)
  have "json_ok (case ser x of None \<Rightarrow> JNull | Some j \<Rightarrow> j)" if "x \<in> set xs" for x
    using JArr.IH [OF that] by (cases "ser x") auto
  with JArr.prems show ?case by auto
next
  case (JObj fs)
  have "json_ok (snd q)"
    if "q \<in> set (List.map_filter (\<lambda>(k, r). map_option (Pair k) r) (map (map_prod id ser) fs))" for q
  proof -
    from that obtain p where p: "p \<in> set fs" and s: "ser (snd p) = Some (snd q)"
      by (auto simp: List.map_filter_def)
    have "snd p \<in> Basic_BNFs.snds p" by (cases p) (simp add: snds.simps)
    from JObj.IH [OF p this s] show ?thesis .
  qed
  with JObj.prems show ?case by auto
qed auto

subsection \<open>Reading the store\<close>

text \<open>
  C7. \<^verbatim>\<open>loadFavorites\<close> accepts both stored shapes: when the stored text decodes to
  a bare array it returns that array, and when it decodes to an object whose \<^verbatim>\<open>items\<close>
  property is an array it returns that array.
\<close>

theorem loadFavorites_legacy_shapes:
  "getItem st FAVORITES_KEY = Inr (Some t) \<Longrightarrow>
     (JSON_parse t = Inr (JArr s) \<longrightarrow> loadFavorites st = Inr (JArr s)) \<and>
     (JSON_parse t = Inr (JObj fs) \<and> field (JObj fs) ''items'' = JArr s
        \<longrightarrow> loadFavorites st = Inr (JArr s))"
proof -
  assume g: "getItem st FAVORITES_KEY = Inr (Some t)"
  have nonempty: "or_text (Some t) d = t" if "JSON_parse t = Inr v" for d v
    using that by (cases t) (auto simp: or_text_def)
  show ?thesis
    using g by (auto simp: loadFavorites_def nonempty js_or_def opt_prop_def)
qed

theorem loadFavorites_legacy_shapes_witness:
  "loadFavorites \<lparr>items = [FAVORITES_KEY \<mapsto>
       Json (JObj [(''items'', JArr [JObj [(''id'', JStr ''r2'')]])])],
     readable = True, writable = True\<rparr>
   = Inr (JArr [JObj [(''id'', JStr ''r2'')]]) \<and>
   loadFavorites \<lparr>items = [FAVORITES_KEY \<mapsto>
       Json (JArr [JObj [(''id'', JStr ''r1'')], JObj [(''id'', JStr ''r2'')]])],
     readable = True, writable = True\<rparr>
   = Inr (JArr [JObj [(''id'', JStr ''r1'')], JObj [(''id'', JStr ''r2'')]])"
  using loadFavorites_legacy_shapes
    [of "\<lparr>items = [FAVORITES_KEY \<mapsto>
            Json (JObj [(''items'', JArr [JObj [(''id'', JStr ''r2'')]])])],
          readable = True, writable = True\<rparr>"
        "Json (JObj [(''items'', JArr [JObj [(''id'', JStr ''r2'')]])])"
        "[JObj [(''id'', JStr ''r2'')]]"
        "[(''items'', JArr [JObj [(''id'', JStr ''r2'')]])]"]
    loadFavorites_legacy_shapes
    [of "\<lparr>items = [FAVORITES_KEY \<mapsto>
            Json (JArr [JObj [(''id'', JStr ''r1'')], JObj [(''id'', JStr ''r2'')]])],
          readable = True, writable = True\<rparr>"
        "Json (JArr [JObj [(''id'', JStr ''r1'')], JObj [(''id'', JStr ''r2'')]])"
        "[JObj [(''id'', JStr ''r1'')], JObj [(''id'', JStr ''r2'')]]"]
  by (simp add: getItem_def List.map_filter_def)

text \<open>
  C6. Reads of the store never raise: \<^verbatim>\<open>loadDraft\<close>, \<^verbatim>\<open>loadFavorites\<close> and
  \<^verbatim>\<open>loadUserReviews\<close> always return a value, and when the store cannot be accessed or
  the stored content does not decode they return the default: \<^verbatim>\<open>null\<close> for a draft,
  the empty array for favorites and reviews.
\<close>

theorem store_reads_never_raise:
  "(\<exists>v. loadDraft st draftId = Inr v) \<and>
   (\<exists>v. loadFavorites st = Inr v) \<and>
   (\<exists>v. loadUserReviews st u = Inr v) \<and>
   (bad_read st (draftKey draftId) \<longrightarrow> loadDraft st draftId = Inr JNull) \<and>
   (bad_read st FAVORITES_KEY \<longrightarrow> loadFavorites st = Inr (JArr [])) \<and>
   (bad_read st REVIEWS_KEY \<longrightarrow> loadUserReviews st u = Inr (JArr []))"
proof (intro conjI impI)
  show "\<exists>v. loadDraft st draftId = Inr v"
    unfolding loadDraft_def by (rule try_catch_default)
  show "\<exists>v. loadFavorites st = Inr v"
    unfolding loadFavorites_def by (rule try_catch_default)
  show "\<exists>v. loadUserReviews st u = Inr v"
    unfolding loadUserReviews_def by (rule try_catch_default)
next
  assume "bad_read st (draftKey draftId)"
  then show "loadDraft st draftId = Inr JNull"
    by (auto simp: bad_read_def loadDraft_def isl_def
          split: sum.splits option.splits)
next
  assume "bad_read st FAVORITES_KEY"
  then show "loadFavorites st = Inr (JArr [])"
    by (auto simp: bad_read_def loadFavorites_def or_text_def JSON_stringify_def isl_def
          split: sum.splits option.splits)
next
  assume "bad_read st REVIEWS_KEY"
  then show "loadUserReviews st u = Inr (JArr [])"
    by (auto simp: bad_read_def loadUserReviews_def or_text_def JSON_stringify_def isl_def
          split: sum.splits option.splits)
qed

theorem store_reads_never_raise_witness:
  "bad_read \<lparr>items = [draftKey ''create'' \<mapsto> Raw ''{broken''], readable = True, writable = True\<rparr>
     (draftKey ''create'') \<and>
   loadDraft \<lparr>items = [draftKey ''create'' \<mapsto> Raw ''{broken''], readable = True, writable = True\<rparr>
     ''create'' = Inr JNull \<and>
   bad_read \<lparr>items = Map.empty, readable = False, writable = False\<rparr> FAVORITES_KEY \<and>
   loadFavorites \<lparr>items = Map.empty, readable = False, writable = False\<rparr> = Inr (JArr []) \<and>
   bad_read \<lparr>items = [REVIEWS_KEY \<mapsto> Json JUndefined], readable = True, writable = True\<rparr>
     REVIEWS_KEY \<and>
   loadUserReviews \<lparr>items = [REVIEWS_KEY \<mapsto> Json JUndefined], readable = True, writable = True\<rparr>
     (JStr ''user_1'') = Inr (JArr [])"
  using store_reads_never_raise
    [of "\<lparr>items = [draftKey ''create'' \<mapsto> Raw ''{broken''], readable = True, writable = True\<rparr>"
        "''create''" "JStr ''user_1''"]
    store_reads_never_raise
    [of "\<lparr>items = Map.empty, readable = False, writable = False\<rparr>"
        "''create''" "JStr ''user_1''"]
    store_reads_never_raise
    [of "\<lparr>items = [REVIEWS_KEY \<mapsto> Json JUndefined], readable = True, writable = True\<rparr>"
        "''create''" "JStr ''user_1''"]
  by (simp add: bad_read_def getItem_def)

subsection \<open>Array callbacks\<close>

lemma findIndex_id_None_iff:
  "findIndex_id x favs = Inr None \<longleftrightarrow>
     (\<forall>f \<in> set favs. \<not> nullish f \<and> \<not> strict_eq (field f ''id'') x)"
  by (induction favs) (auto simp: get_prop_def and_then_Inr_iff)

lemma some_id_eq:
  "\<forall>f \<in> set favs. \<not> nullish f \<Longrightarrow>
   some_id x favs = Inr (\<exists>f \<in> set favs. strict_eq (field f ''id'') x)"
  by (induction favs) (auto simp: get_prop_def)

lemma filter_prop_neq_eq:
  "filter_prop_neq k x favs =
     (if \<forall>f \<in> set favs. \<not> nullish f
      then Inr (filter (\<lambda>f. \<not> strict_eq (field f k) x) favs) else Inl TypeError)"
  by (induction favs) (auto simp: get_prop_def)


lemma strict_eq_identifier: "is_identifier x \<Longrightarrow> strict_eq v x \<longleftrightarrow> v = x"
  by (cases x; cases v) auto

lemma strict_eq_truthy: "strict_eq v x \<Longrightarrow> truthy v = truthy x"
  by (cases x; cases v) auto

lemma identifier_facts: "is_identifier x \<Longrightarrow> truthy x \<and> json_ok x \<and> \<not> nullish x"
  by (cases x) auto

subsection \<open>Favorites as stored and as loaded\<close>

lemma decoded_json_ok: "json_ok v \<Longrightarrow> decoded v = v"
  by (simp add: decoded_def json_ok_ser)

lemma loadFavorites_total: "\<exists>v. loadFavorites st = Inr v"
  unfolding loadFavorites_def by (rule try_catch_default)

lemma json_ok_field: "json_ok v \<Longrightarrow> truthy (field v k) \<Longrightarrow> json_ok (field v k)"
  by (cases v) (auto split: option.splits dest!: map_of_SomeD)

lemma JSON_parse_json_ok: "JSON_parse t = Inr v \<Longrightarrow> json_ok v"
  by (cases t) (auto split: option.splits intro: ser_json_ok)

lemma loadFavorites_json_ok: "loadFavorites st = Inr v \<Longrightarrow> json_ok v"
proof -
  assume a: "loadFavorites st = Inr v"
  show ?thesis
  proof (cases "and_then (getItem st FAVORITES_KEY) (\<lambda>item.
        JSON_parse (or_text item (JSON_stringify (JArr []))))")
    case (Inl e)
    with a show ?thesis
      by (cases "getItem st FAVORITES_KEY") (auto simp: loadFavorites_def)
  next
    case (Inr d)
    then have d: "json_ok d"
      by (auto simp: and_then_Inr_iff dest: JSON_parse_json_ok)
    from Inr a have "v = (if isArray d then d else js_or (opt_prop d ''items'') (JArr []))"
      by (cases "getItem st FAVORITES_KEY") (auto simp: loadFavorites_def)
    with d show ?thesis
      by (auto simp: js_or_def opt_prop_def json_ok_field split: if_splits)
  qed
qed

lemma loadFavorites_unreadable: "\<not> readable st \<Longrightarrow> loadFavorites st = Inr (JArr [])"
  by (simp add: loadFavorites_def getItem_def)

lemma loadFavorites_written:
  "readable st \<Longrightarrow>
   loadFavorites (st\<lparr>items := (items st)(FAVORITES_KEY \<mapsto> JSON_stringify (JArr xs))\<rparr>)
     = Inr (JArr (map decoded xs))"
  by (simp add: loadFavorites_def getItem_def or_text_def JSON_stringify_def decoded_def
        comp_def)

lemma map_decoded_json_ok: "json_ok (JArr xs) \<Longrightarrow> map decoded xs = xs"
  by (induction xs) (auto simp: decoded_json_ok)

lemma favoriteEntry_stored_id:
  "json_ok (js_or (field recipe ''id'') (JNum (int (now clk)))) \<Longrightarrow>
   field (decoded (favoriteEntry clk recipe)) ''id''
     = js_or (field recipe ''id'') (JNum (int (now clk)))"
  by (simp add: favoriteEntry_def decoded_def List.map_filter_simps json_ok_ser)

lemma favoriteEntry_stored_nonnull: "\<not> nullish (decoded (favoriteEntry clk recipe))"
  by (simp add: favoriteEntry_def decoded_def)

subsection \<open>What one call does\<close>

lemma addToFavorites_eq:
  "loadFavorites st = Inr (JArr favs) \<Longrightarrow>
   addToFavorites st clk recipe =
     (if writable st \<and> \<not> nullish recipe \<and>
         (\<forall>f \<in> set favs. \<not> nullish f \<and> \<not> strict_eq (field f ''id'') (field recipe ''id''))
      then (True, st\<lparr>items := (items st)(FAVORITES_KEY \<mapsto>
              JSON_stringify (JArr (favs @ [favoriteEntry clk recipe])))\<rparr>)
      else (False, st))"
proof -
  assume l: "loadFavorites st = Inr (JArr favs)"
  show ?thesis
  proof (cases "nullish recipe")
    case True
    with l show ?thesis
      by (simp add: addToFavorites_def favoriteRecipe_def get_prop_def)
  next
    case False
    show ?thesis
    proof (cases "findIndex_id (field recipe ''id'') favs")
      case (Inl e)
      then have "\<not> (\<forall>f \<in> set favs. \<not> nullish f \<and> \<not> strict_eq (field f ''id'') (field recipe ''id''))"
        using findIndex_id_None_iff [of "field recipe ''id''" favs] by simp
      with l False Inl show ?thesis
        by (simp add: addToFavorites_def favoriteRecipe_def get_prop_def)
    next
      case (Inr r)
      then have "r = None \<longleftrightarrow> (\<forall>f \<in> set favs. \<not> nullish f \<and> \<not> strict_eq (field f ''id'') (field recipe ''id''))"
        using findIndex_id_None_iff [of "field recipe ''id''" favs] by simp
      with l False Inr show ?thesis
        by (simp add: addToFavorites_def favoriteRecipe_def get_prop_def setItem_def)
    qed
  qed
qed

lemma addToFavorites_not_array:
  "loadFavorites st = Inr v \<Longrightarrow> \<not> isArray v \<Longrightarrow> addToFavorites st clk recipe = (False, st)"
  by (cases v; cases "nullish recipe")
     (simp_all add: addToFavorites_def favoriteRecipe_def get_prop_def)

lemma removeFromFavorites_eq:
  "loadFavorites st = Inr (JArr favs) \<Longrightarrow>
   removeFromFavorites st recipeId =
     (if writable st \<and> (\<forall>f \<in> set favs. \<not> nullish f)
      then (True, st\<lparr>items := (items st)(FAVORITES_KEY \<mapsto>
              JSON_stringify (JArr (filter (\<lambda>f. \<not> strict_eq (field f ''id'') recipeId) favs)))\<rparr>)
      else (False, st))"
  by (simp add: removeFromFavorites_def filter_prop_neq_eq setItem_def)

lemma removeFromFavorites_not_array:
  "loadFavorites st = Inr v \<Longrightarrow> \<not> isArray v \<Longrightarrow> removeFromFavorites st recipeId = (False, st)"
  by (cases v) (simp_all add: removeFromFavorites_def)

lemma loadFavorites_after_write:
  "loadFavorites st = Inr (JArr favs) \<Longrightarrow> json_ok (JArr xs) \<Longrightarrow>
   (\<not> readable st \<longrightarrow> xs = []) \<Longrightarrow>
   loadFavorites (st\<lparr>items := (items st)(FAVORITES_KEY \<mapsto> JSON_stringify (JArr xs))\<rparr>)
     = Inr (JArr xs)"
  by (cases "readable st")
     (simp_all add: loadFavorites_written map_decoded_json_ok loadFavorites_unreadable)

lemma one_entry_add:
  assumes inv: "one_entry_per_id st" and ident: "is_identifier (field recipe ''id'')"
  shows "one_entry_per_id (snd (addToFavorites st clk recipe))"
proof -
  obtain v where v: "loadFavorites st = Inr v"
    using loadFavorites_total by blast
  show ?thesis
  proof (cases v)
    case (JArr favs)
    let ?rid = "field recipe ''id''"
    let ?st1 = "st\<lparr>items := (items st)(FAVORITES_KEY \<mapsto>
                  JSON_stringify (JArr (favs @ [favoriteEntry clk recipe])))\<rparr>"
    from v JArr have l: "loadFavorites st = Inr (JArr favs)" by simp
    show ?thesis
    proof (cases "writable st \<and> \<not> nullish recipe \<and>
         (\<forall>f \<in> set favs. \<not> nullish f \<and> \<not> strict_eq (field f ''id'') ?rid)")
      case False
      then have "addToFavorites st clk recipe = (False, st)"
        using addToFavorites_eq [OF l, of clk recipe] by auto
      with inv show ?thesis by simp
    next
      case True
      then have a: "addToFavorites st clk recipe = (True, ?st1)"
        using addToFavorites_eq [OF l, of clk recipe] by auto
      show ?thesis
      proof (cases "readable st")
        case False
        then show ?thesis
          by (simp add: a one_entry_per_id_def loadFavorites_unreadable fav_ids_def)
      next
        case r: True
        have ok: "json_ok (JArr favs)" using l by (rule loadFavorites_json_ok)
        have idv: "js_or ?rid (JNum (int (now clk))) = ?rid"
          using ident identifier_facts [of ?rid] by (simp add: js_or_def)
        have eid: "field (decoded (favoriteEntry clk recipe)) ''id'' = ?rid"
          using favoriteEntry_stored_id [of recipe clk] ident identifier_facts [of ?rid] idv
          by simp
        have fresh: "?rid \<notin> set (fav_ids favs)"
          using True ident by (auto simp: fav_ids_def strict_eq_identifier)
        have "loadFavorites ?st1 = Inr (JArr (favs @ [decoded (favoriteEntry clk recipe)]))"
          using r ok by (simp add: loadFavorites_written map_decoded_json_ok)
        moreover have "distinct (fav_ids (favs @ [decoded (favoriteEntry clk recipe)]))"
          using inv l fresh eid by (simp add: one_entry_per_id_def fav_ids_def)
        ultimately show ?thesis
          by (simp add: a one_entry_per_id_def)
      qed
    qed
  qed (use v inv in \<open>simp_all add: addToFavorites_not_array\<close>)
qed

lemma one_entry_remove:
  assumes inv: "one_entry_per_id st"
  shows "one_entry_per_id (snd (removeFromFavorites st recipeId))"
proof -
  obtain v where v: "loadFavorites st = Inr v"
    using loadFavorites_total by blast
  show ?thesis
  proof (cases v)
    case (JArr favs)
    let ?kept = "filter (\<lambda>f. \<not> strict_eq (field f ''id'') recipeId) favs"
    from v JArr have l: "loadFavorites st = Inr (JArr favs)" by simp
    have ok: "json_ok (JArr ?kept)"
      using loadFavorites_json_ok [OF l] by simp
    have unread: "\<not> readable st \<longrightarrow> ?kept = []"
      using l by (auto simp: loadFavorites_unreadable)
    have d: "distinct (fav_ids ?kept)"
      using inv l by (simp add: one_entry_per_id_def fav_ids_def distinct_map_filter)
    show ?thesis
      using inv d loadFavorites_after_write [OF l ok unread]
      by (simp add: removeFromFavorites_eq [OF l] one_entry_per_id_def)
  qed (use v inv in \<open>simp_all add: removeFromFavorites_not_array\<close>)
qed

lemma toggle_cases:
  "snd (toggleFavorite st clk recipe) = st
      \<or> snd (toggleFavorite st clk recipe) = snd (removeFromFavorites st (field recipe ''id''))
      \<or> snd (toggleFavorite st clk recipe) = snd (addToFavorites st clk recipe)"
  by (auto simp: toggleFavorite_def get_prop_def and_then_Inr_iff split: sum.splits prod.splits)

lemma one_entry_toggle:
  assumes inv: "one_entry_per_id st" and ident: "is_identifier (field recipe ''id'')"
  shows "one_entry_per_id (snd (toggleFavorite st clk recipe))"
  using toggle_cases [of st clk recipe] inv ident
  by (auto simp: one_entry_add one_entry_remove)

lemma one_entry_apply_op:
  "one_entry_per_id st \<Longrightarrow> identified_op op \<Longrightarrow> one_entry_per_id (apply_op st op)"
  by (cases op) (simp_all add: one_entry_add one_entry_remove one_entry_toggle)

lemma one_entry_run:
  "one_entry_per_id st \<Longrightarrow> \<forall>op \<in> set ops. identified_op op \<Longrightarrow>
   one_entry_per_id (foldl apply_op st ops)"
  by (induction ops arbitrary: st) (simp_all add: one_entry_apply_op)

lemma addToFavorites_appends:
  assumes r: "readable st" and w: "writable st"
    and l: "loadFavorites st = Inr (JArr favs)"
    and n: "\<not> nullish recipe"
    and free: "\<forall>f \<in> set favs. \<not> nullish f \<and> \<not> strict_eq (field f ''id'') (field recipe ''id'')"
    and ok: "json_ok (js_or (field recipe ''id'') (JNum (int (now clk))))"
  shows "\<exists>st1 e. addToFavorites st clk recipe = (True, st1) \<and>
           readable st1 \<and> writable st1 \<and>
           loadFavorites st1 = Inr (JArr (favs @ [e])) \<and> \<not> nullish e \<and>
           field e ''id'' = js_or (field recipe ''id'') (JNum (int (now clk)))"
proof -
  let ?e = "decoded (favoriteEntry clk recipe)"
  let ?st1 = "st\<lparr>items := (items st)(FAVORITES_KEY \<mapsto>
                JSON_stringify (JArr (favs @ [favoriteEntry clk recipe])))\<rparr>"
  have a: "addToFavorites st clk recipe = (True, ?st1)"
    using w n free by (simp add: addToFavorites_eq [OF l])
  have "json_ok (JArr favs)" using l by (rule loadFavorites_json_ok)
  then have l1: "loadFavorites ?st1 = Inr (JArr (favs @ [?e]))"
    using r by (simp add: loadFavorites_written map_decoded_json_ok)
  have "field ?e ''id'' = js_or (field recipe ''id'') (JNum (int (now clk)))"
    using ok by (rule favoriteEntry_stored_id)
  with a l1 r w favoriteEntry_stored_nonnull [of clk recipe] show ?thesis
    by (intro exI [of _ ?st1] exI [of _ ?e]) simp
qed

lemma loadFavorites_empty_store:
  "loadFavorites \<lparr>items = Map.empty, readable = True, writable = True\<rparr> = Inr (JArr [])"
  by (simp add: loadFavorites_def getItem_def or_text_def JSON_stringify_def)

lemma loadFavorites_array_store:
  "json_ok (JArr xs) \<Longrightarrow>
   loadFavorites \<lparr>items = [FAVORITES_KEY \<mapsto> Json (JArr xs)], readable = True, writable = w\<rparr>
     = Inr (JArr xs)"
  using json_ok_ser [of "JArr xs"]
  by (simp add: loadFavorites_def getItem_def or_text_def del: ser.simps)

subsection \<open>Identifiers of reachable stores\<close>

lemma truthy_ser: "truthy v \<Longrightarrow> \<not> is_infinite v \<Longrightarrow> \<exists>j. ser v = Some j \<and> truthy j"
  by (cases v) auto

lemma favoriteEntry_stored_truthy:
  "0 < now clk \<Longrightarrow> \<not> is_infinite (field recipe ''id'') \<Longrightarrow>
   truthy (field (decoded (favoriteEntry clk recipe)) ''id'')"
proof -
  assume pos: "0 < now clk" and fin: "\<not> is_infinite (field recipe ''id'')"
  then have "truthy (js_or (field recipe ''id'') (JNum (int (now clk))))"
    and "\<not> is_infinite (js_or (field recipe ''id'') (JNum (int (now clk))))"
    by (simp_all add: js_or_def)
  then obtain j where "ser (js_or (field recipe ''id'') (JNum (int (now clk)))) = Some j" "truthy j"
    using truthy_ser by blast
  then show ?thesis
    by (simp add: favoriteEntry_def decoded_def List.map_filter_simps)
qed

lemma truthy_ids_add:
  assumes inv: "truthy_ids st" and pos: "0 < now clk" and r: "readable st"
    and fin: "\<not> is_infinite (field recipe ''id'')"
  shows "truthy_ids (snd (addToFavorites st clk recipe))"
proof -
  from inv obtain favs where l: "loadFavorites st = Inr (JArr favs)"
    and ids: "\<forall>fav \<in> set favs. truthy (field fav ''id'')"
    by (auto simp: truthy_ids_def split: sum.splits jsval.splits)
  have ok: "json_ok (JArr favs)" using l by (rule loadFavorites_json_ok)
  show ?thesis
    using inv r ids ok favoriteEntry_stored_truthy [OF pos fin]
    by (simp add: addToFavorites_eq [OF l] truthy_ids_def l loadFavorites_written
          map_decoded_json_ok)
qed

lemma truthy_ids_remove:
  assumes inv: "truthy_ids st" and r: "readable st"
  shows "truthy_ids (snd (removeFromFavorites st recipeId))"
proof -
  from inv obtain favs where l: "loadFavorites st = Inr (JArr favs)"
    and ids: "\<forall>fav \<in> set favs. truthy (field fav ''id'')"
    by (auto simp: truthy_ids_def split: sum.splits jsval.splits)
  have "json_ok (JArr favs)" using l by (rule loadFavorites_json_ok)
  then have ok: "json_ok (JArr (filter (\<lambda>f. \<not> strict_eq (field f ''id'') recipeId) favs))"
    by simp
  show ?thesis
    using inv r ids loadFavorites_after_write [OF l ok]
    by (simp add: removeFromFavorites_eq [OF l] truthy_ids_def l)
qed

lemma readable_add: "readable (snd (addToFavorites st clk recipe)) = readable st"
proof -
  obtain v where v: "loadFavorites st = Inr v" using loadFavorites_total by blast
  show ?thesis
    by (cases v) (simp_all add: addToFavorites_eq v addToFavorites_not_array)
qed

lemma readable_remove: "readable (snd (removeFromFavorites st recipeId)) = readable st"
proof -
  obtain v where v: "loadFavorites st = Inr v" using loadFavorites_total by blast
  show ?thesis
    by (cases v) (simp_all add: removeFromFavorites_eq v removeFromFavorites_not_array)
qed

lemma truthy_ids_apply_op:
  "truthy_ids st \<and> readable st \<Longrightarrow> after_epoch op \<Longrightarrow>
   truthy_ids (apply_op st op) \<and> readable (apply_op st op)"
proof (cases op)
  case (Toggle clk recipe)
  assume "truthy_ids st \<and> readable st" "after_epoch op"
  with Toggle toggle_cases [of st clk recipe] show ?thesis
    by (auto simp: truthy_ids_add truthy_ids_remove readable_add readable_remove)
qed (simp_all add: truthy_ids_add truthy_ids_remove readable_add readable_remove)

lemma truthy_ids_run:
  "truthy_ids st \<and> readable st \<Longrightarrow> \<forall>op \<in> set ops. after_epoch op \<Longrightarrow>
   truthy_ids (foldl apply_op st ops) \<and> readable (foldl apply_op st ops)"
proof (induction ops arbitrary: st)
  case Nil
  then show ?case by simp
next
  case (Cons op ops)
  then show ?case
    using truthy_ids_apply_op [of st op] by simp
qed

subsection \<open>Toggling twice\<close>

text \<open>
  A call of \<^verbatim>\<open>toggleFavorite\<close> runs to its end before another starts. Two calls in a row
  for a recipe that carries an identifier leave its membership as it was before the first.
\<close>

lemma isRecipeFavorited_eq:
  "loadFavorites st = Inr (JArr favs) \<Longrightarrow> \<forall>f \<in> set favs. \<not> nullish f \<Longrightarrow>
   isRecipeFavorited st x = Inr (\<exists>f \<in> set favs. strict_eq (field f ''id'') x)"
  by (simp add: isRecipeFavorited_def some_id_eq)

lemma toggleFavorite_twice:
  assumes r: "readable st" and w: "writable st"
    and l: "loadFavorites st = Inr (JArr favs)"
    and n: "\<forall>f \<in> set favs. \<not> nullish f"
    and ident: "is_identifier (field recipe ''id'')"
  shows "isRecipeFavorited
           (snd (toggleFavorite (snd (toggleFavorite st clk recipe)) clk' recipe))
           (field recipe ''id'')
         = isRecipeFavorited st (field recipe ''id'')"
proof -
  let ?rid = "field recipe ''id''"
  let ?e = "\<lambda>c. decoded (favoriteEntry c recipe)"
  have idf: "truthy ?rid" "json_ok ?rid" "strict_eq ?rid ?rid"
    using ident identifier_facts [of ?rid] strict_eq_identifier [of ?rid ?rid] by simp_all
  have nr: "\<not> nullish recipe" using idf(1) by (cases recipe) simp_all
  have gp: "get_prop recipe ''id'' = Inr ?rid" using nr by (simp add: get_prop_def)
  have ok: "json_ok (JArr favs)" using l by (rule loadFavorites_json_ok)
  have eid: "field (?e c) ''id'' = ?rid" "\<not> nullish (?e c)" for c
    using favoriteEntry_stored_id [of recipe c] idf favoriteEntry_stored_nonnull [of c recipe]
    by (simp_all add: js_or_def)
  show ?thesis
  proof (cases "\<exists>f \<in> set favs. strict_eq (field f ''id'') ?rid")
    case True
    let ?kept = "filter (\<lambda>f. \<not> strict_eq (field f ''id'') ?rid) favs"
    let ?st1 = "st\<lparr>items := (items st)(FAVORITES_KEY \<mapsto> JSON_stringify (JArr ?kept))\<rparr>"
    let ?st2 = "st\<lparr>items := (items st)(FAVORITES_KEY \<mapsto>
                  JSON_stringify (JArr (?kept @ [favoriteEntry clk' recipe])))\<rparr>"
    have t1: "snd (toggleFavorite st clk recipe) = ?st1"
      using True w n by (simp add: toggleFavorite_def gp isRecipeFavorited_eq [OF l n]
          removeFromFavorites_eq [OF l])
    have okk: "json_ok (JArr ?kept)" using ok by simp
    have l1: "loadFavorites ?st1 = Inr (JArr ?kept)"
      using r okk by (simp add: loadFavorites_written map_decoded_json_ok)
    have n1: "\<forall>f \<in> set ?kept. \<not> nullish f" using n by simp
    have t2: "snd (toggleFavorite ?st1 clk' recipe) = ?st2"
      using w n nr by (simp add: toggleFavorite_def gp isRecipeFavorited_eq [OF l1 n1]
          addToFavorites_eq [OF l1])
    have l2: "loadFavorites ?st2 = Inr (JArr (?kept @ [?e clk']))"
      using r okk loadFavorites_written [of st "?kept @ [favoriteEntry clk' recipe]"]
      by (simp add: map_decoded_json_ok)
    have n2: "\<forall>f \<in> set (?kept @ [?e clk']). \<not> nullish f" using n eid(2) by simp
    have "isRecipeFavorited ?st2 ?rid = Inr True"
      using eid(1) idf(3) by (simp add: isRecipeFavorited_eq [OF l2 n2])
    with True show ?thesis
      by (simp add: t1 t2 isRecipeFavorited_eq [OF l n])
  next
    case False
    let ?st1 = "st\<lparr>items := (items st)(FAVORITES_KEY \<mapsto>
                  JSON_stringify (JArr (favs @ [favoriteEntry clk recipe])))\<rparr>"
    let ?st2 = "st\<lparr>items := (items st)(FAVORITES_KEY \<mapsto> JSON_stringify (JArr favs))\<rparr>"
    have t1: "snd (toggleFavorite st clk recipe) = ?st1"
      using False w n nr by (simp add: toggleFavorite_def gp isRecipeFavorited_eq [OF l n]
          addToFavorites_eq [OF l])
    have l1: "loadFavorites ?st1 = Inr (JArr (favs @ [?e clk]))"
      using r ok by (simp add: loadFavorites_written map_decoded_json_ok)
    have n1: "\<forall>f \<in> set (favs @ [?e clk]). \<not> nullish f" using n eid(2) by simp
    have kept: "filter (\<lambda>f. \<not> strict_eq (field f ''id'') ?rid) (favs @ [?e clk]) = favs"
      using False eid(1) idf(3) by (simp add: filter_id_conv)
    have t2: "snd (toggleFavorite ?st1 clk' recipe) = ?st2"
      using w n1 eid(1) idf(3) kept
      by (simp add: toggleFavorite_def gp isRecipeFavorited_eq [OF l1 n1]
          removeFromFavorites_eq [OF l1])
    have l2: "loadFavorites ?st2 = Inr (JArr favs)"
      using r ok loadFavorites_written [of st favs] by (simp add: map_decoded_json_ok)
    show ?thesis
      by (simp add: t1 t2 isRecipeFavorited_eq [OF l2 n] isRecipeFavorited_eq [OF l n])
  qed
qed

subsection \<open>The favorites as a set\<close>

text \<open>
  C9. \<^verbatim>\<open>removeFromFavorites\<close> is idempotent. When the store can be written and the
  stored favorites are a list of entries, the call returns \<^verbatim>\<open>true\<close> and leaves exactly
  the entries whose identifier differs from \<^verbatim>\<open>recipeId\<close>; when no entry has that
  identifier the favorites read back as before; and removing the same identifier again
  returns \<^verbatim>\<open>true\<close> and changes nothing.
\<close>

theorem removeFromFavorites_idempotent:
  assumes w: "writable st"
    and l: "loadFavorites st = Inr (JArr favs)"
    and n: "\<forall>f \<in> set favs. \<not> nullish f"
  shows "\<exists>st'. removeFromFavorites st recipeId = (True, st') \<and>
           loadFavorites st' =
             Inr (JArr (filter (\<lambda>f. \<not> strict_eq (field f ''id'') recipeId) favs)) \<and>
           ((\<forall>f \<in> set favs. \<not> strict_eq (field f ''id'') recipeId)
              \<longrightarrow> loadFavorites st' = loadFavorites st) \<and>
           removeFromFavorites st' recipeId = (True, st')"
proof -
  let ?kept = "filter (\<lambda>f. \<not> strict_eq (field f ''id'') recipeId) favs"
  let ?st' = "st\<lparr>items := (items st)(FAVORITES_KEY \<mapsto> JSON_stringify (JArr ?kept))\<rparr>"
  have r: "removeFromFavorites st recipeId = (True, ?st')"
    using w l n by (simp add: removeFromFavorites_eq)
  have "json_ok (JArr favs)"
    using l by (rule loadFavorites_json_ok)
  then have ok: "json_ok (JArr ?kept)" by simp
  have unread: "\<not> readable st \<longrightarrow> ?kept = []"
    using l by (auto simp: loadFavorites_unreadable)
  have l': "loadFavorites ?st' = Inr (JArr ?kept)"
    using l ok unread by (rule loadFavorites_after_write)
  have same: "loadFavorites ?st' = loadFavorites st"
    if "\<forall>f \<in> set favs. \<not> strict_eq (field f ''id'') recipeId"
    using that l l' by simp
  have again: "removeFromFavorites ?st' recipeId = (True, ?st')"
    using w n by (simp add: removeFromFavorites_eq [OF l'])
  from r l' same again show ?thesis by blast
qed

theorem removeFromFavorites_idempotent_witness:
  "\<exists>st'. removeFromFavorites
       \<lparr>items = [FAVORITES_KEY \<mapsto>
           Json (JArr [JObj [(''id'', JStr ''r1'')], JObj [(''id'', JStr ''r2'')]])],
        readable = True, writable = True\<rparr> (JStr ''r1'') = (True, st') \<and>
     loadFavorites st' = Inr (JArr [JObj [(''id'', JStr ''r2'')]]) \<and>
     removeFromFavorites st' (JStr ''r1'') = (True, st')"
proof -
  let ?favs = "[JObj [(''id'', JStr ''r1'')], JObj [(''id'', JStr ''r2'')]]"
  let ?st = "\<lparr>items = [FAVORITES_KEY \<mapsto> Json (JArr ?favs)],
              readable = True, writable = True\<rparr>"
  have w: "writable ?st" by simp
  have l: "loadFavorites ?st = Inr (JArr ?favs)"
    by (rule loadFavorites_array_store) simp
  have n: "\<forall>f \<in> set ?favs. \<not> nullish f" by simp
  from removeFromFavorites_idempotent [OF w l n, of "JStr ''r1''"]
  show ?thesis by simp
qed

text \<open>
  C3, as the code has it. For every store whose favorites are a list and every recipe:
  when an entry with the recipe's identifier is present, \<^verbatim>\<open>addToFavorites\<close> returns
  \<^verbatim>\<open>false\<close> and leaves the store unchanged; when the store can be read and written, the
  recipe carries an identifier (a non-empty string, a non-zero integer or \<^verbatim>\<open>true\<close>), no
  entry is \<^verbatim>\<open>null\<close> and no entry has that identifier yet, the first call adds one
  entry, the second returns \<^verbatim>\<open>false\<close>, and exactly one entry has that identifier; and
  every store reached from one with at most one entry per identifier, by adding or
  toggling recipes that carry an identifier and by removing, has at most one entry per
  identifier.
\<close>

theorem addToFavorites_set_semantics:
  assumes l: "loadFavorites st = Inr (JArr favs)"
  shows "((\<exists>f \<in> set favs. strict_eq (field f ''id'') (field recipe ''id''))
            \<longrightarrow> addToFavorites st clk recipe = (False, st)) \<and>
         (readable st \<and> writable st \<and> is_identifier (field recipe ''id'') \<and>
          (\<forall>f \<in> set favs. \<not> nullish f \<and> \<not> strict_eq (field f ''id'') (field recipe ''id''))
            \<longrightarrow> (\<exists>st1 e. addToFavorites st clk recipe = (True, st1) \<and>
                   addToFavorites st1 clk' recipe = (False, st1) \<and>
                   loadFavorites st1 = Inr (JArr (favs @ [e])) \<and>
                   filter (\<lambda>f. strict_eq (field f ''id'') (field recipe ''id'')) (favs @ [e])
                     = [e])) \<and>
         (one_entry_per_id st \<and> (\<forall>op \<in> set ops. identified_op op)
            \<longrightarrow> one_entry_per_id (foldl apply_op st ops))"
proof (intro conjI impI)
  assume "\<exists>f \<in> set favs. strict_eq (field f ''id'') (field recipe ''id'')"
  then show "addToFavorites st clk recipe = (False, st)"
    by (auto simp: addToFavorites_eq [OF l])
next
  let ?rid = "field recipe ''id''"
  assume h: "readable st \<and> writable st \<and> is_identifier ?rid \<and>
          (\<forall>f \<in> set favs. \<not> nullish f \<and> \<not> strict_eq (field f ''id'') ?rid)"
  then have ident: "truthy ?rid" "json_ok ?rid" "strict_eq ?rid ?rid"
    using identifier_facts [of ?rid] strict_eq_identifier [of ?rid ?rid] by simp_all
  have n: "\<not> nullish recipe"
    using ident(1) by (cases recipe) simp_all
  from ident have idv: "js_or ?rid (JNum (int (now clk))) = ?rid"
    by (simp add: js_or_def)
  obtain st1 e where a: "addToFavorites st clk recipe = (True, st1)"
      and l1: "loadFavorites st1 = Inr (JArr (favs @ [e]))"
      and e: "\<not> nullish e" "field e ''id'' = ?rid"
    using addToFavorites_appends [of st favs recipe clk] h l n ident(2) idv by auto
  have again: "addToFavorites st1 clk' recipe = (False, st1)"
    using e ident(3) by (simp add: addToFavorites_eq [OF l1])
  have one: "filter (\<lambda>f. strict_eq (field f ''id'') ?rid) (favs @ [e]) = [e]"
    using h e ident(3) by (simp add: filter_empty_conv)
  from a again l1 one
  show "\<exists>st1 e. addToFavorites st clk recipe = (True, st1) \<and>
                   addToFavorites st1 clk' recipe = (False, st1) \<and>
                   loadFavorites st1 = Inr (JArr (favs @ [e])) \<and>
                   filter (\<lambda>f. strict_eq (field f ''id'') ?rid) (favs @ [e]) = [e]"
    by blast
next
  assume "one_entry_per_id st \<and> (\<forall>op \<in> set ops. identified_op op)"
  then show "one_entry_per_id (foldl apply_op st ops)"
    by (simp add: one_entry_run)
qed

theorem addToFavorites_set_semantics_witness:
  "addToFavorites
     \<lparr>items = [FAVORITES_KEY \<mapsto> Json (JArr [JObj [(''id'', JStr ''r1'')]])],
      readable = True, writable = True\<rparr>
     \<lparr>now = 1700000000000, iso = ''2023-11-14T22:13:20.000Z''\<rparr>
     (JObj [(''id'', JStr ''r1''), (''name'', JStr ''Soto'')])
   = (False, \<lparr>items = [FAVORITES_KEY \<mapsto> Json (JArr [JObj [(''id'', JStr ''r1'')]])],
              readable = True, writable = True\<rparr>) \<and>
   (\<exists>st1 e. addToFavorites
       \<lparr>items = [FAVORITES_KEY \<mapsto> Json (JArr [JObj [(''id'', JStr ''r1'')]])],
        readable = True, writable = True\<rparr>
       \<lparr>now = 1700000000000, iso = ''2023-11-14T22:13:20.000Z''\<rparr>
       (JObj [(''id'', JStr ''r2''), (''name'', JStr ''Rawon'')]) = (True, st1) \<and>
     addToFavorites st1 \<lparr>now = 1700000000500, iso = ''2023-11-14T22:13:20.500Z''\<rparr>
       (JObj [(''id'', JStr ''r2''), (''name'', JStr ''Rawon'')]) = (False, st1) \<and>
     loadFavorites st1 = Inr (JArr ([JObj [(''id'', JStr ''r1'')]] @ [e])) \<and>
     filter (\<lambda>f. strict_eq (field f ''id'') (JStr ''r2'')) ([JObj [(''id'', JStr ''r1'')]] @ [e])
       = [e]) \<and>
   one_entry_per_id (foldl apply_op
     \<lparr>items = [FAVORITES_KEY \<mapsto> Json (JArr [JObj [(''id'', JStr ''r1'')]])],
      readable = True, writable = True\<rparr>
     [Add \<lparr>now = 1700000000000, iso = ''2023-11-14T22:13:20.000Z''\<rparr>
        (JObj [(''id'', JStr ''r2''), (''name'', JStr ''Rawon'')]),
      Toggle \<lparr>now = 1700000000500, iso = ''2023-11-14T22:13:20.500Z''\<rparr>
        (JObj [(''id'', JStr ''r1'')]),
      Remove (JStr ''r2''),
      Add \<lparr>now = 1700000000900, iso = ''2023-11-14T22:13:20.900Z''\<rparr>
        (JObj [(''id'', JNum 7)])])"
proof -
  let ?favs = "[JObj [(''id'', JStr ''r1'')]]"
  let ?st = "\<lparr>items = [FAVORITES_KEY \<mapsto> Json (JArr ?favs)],
              readable = True, writable = True\<rparr>"
  have l: "loadFavorites ?st = Inr (JArr ?favs)"
    by (rule loadFavorites_array_store) simp
  have inv: "one_entry_per_id ?st"
    by (simp add: one_entry_per_id_def l fav_ids_def)
  note sem = addToFavorites_set_semantics [OF l]
  from sem [of "JObj [(''id'', JStr ''r1''), (''name'', JStr ''Soto'')]"
          "\<lparr>now = 1700000000000, iso = ''2023-11-14T22:13:20.000Z''\<rparr>" _ "[]"]
  have a: "addToFavorites ?st \<lparr>now = 1700000000000, iso = ''2023-11-14T22:13:20.000Z''\<rparr>
             (JObj [(''id'', JStr ''r1''), (''name'', JStr ''Soto'')]) = (False, ?st)"
    by simp
  from sem [of "JObj [(''id'', JStr ''r2''), (''name'', JStr ''Rawon'')]"
          "\<lparr>now = 1700000000000, iso = ''2023-11-14T22:13:20.000Z''\<rparr>"
          "\<lparr>now = 1700000000500, iso = ''2023-11-14T22:13:20.500Z''\<rparr>"
          "[Add \<lparr>now = 1700000000000, iso = ''2023-11-14T22:13:20.000Z''\<rparr>
              (JObj [(''id'', JStr ''r2''), (''name'', JStr ''Rawon'')]),
            Toggle \<lparr>now = 1700000000500, iso = ''2023-11-14T22:13:20.500Z''\<rparr>
              (JObj [(''id'', JStr ''r1'')]),
            Remove (JStr ''r2''),
            Add \<lparr>now = 1700000000900, iso = ''2023-11-14T22:13:20.900Z''\<rparr>
              (JObj [(''id'', JNum 7)])]"] inv
  have b: "(\<exists>st1 e. addToFavorites ?st
       \<lparr>now = 1700000000000, iso = ''2023-11-14T22:13:20.000Z''\<rparr>
       (JObj [(''id'', JStr ''r2''), (''name'', JStr ''Rawon'')]) = (True, st1) \<and>
     addToFavorites st1 \<lparr>now = 1700000000500, iso = ''2023-11-14T22:13:20.500Z''\<rparr>
       (JObj [(''id'', JStr ''r2''), (''name'', JStr ''Rawon'')]) = (False, st1) \<and>
     loadFavorites st1 = Inr (JArr (?favs @ [e])) \<and>
     filter (\<lambda>f. strict_eq (field f ''id'') (JStr ''r2'')) (?favs @ [e]) = [e]) \<and>
   one_entry_per_id (foldl apply_op ?st
     [Add \<lparr>now = 1700000000000, iso = ''2023-11-14T22:13:20.000Z''\<rparr>
        (JObj [(''id'', JStr ''r2''), (''name'', JStr ''Rawon'')]),
      Toggle \<lparr>now = 1700000000500, iso = ''2023-11-14T22:13:20.500Z''\<rparr>
        (JObj [(''id'', JStr ''r1'')]),
      Remove (JStr ''r2''),
      Add \<lparr>now = 1700000000900, iso = ''2023-11-14T22:13:20.900Z''\<rparr>
        (JObj [(''id'', JNum 7)])])"
    by simp
  from a b show ?thesis by blast
qed

text \<open>
  C3 as stated, for every recipe, fails. Without the restriction to recipes that carry an
  identifier the set property does not hold: from the empty store, adding a recipe with
  no \<^verbatim>\<open>id\<close> twice within one millisecond leaves two entries with the same generated
  identifier.
\<close>

theorem addToFavorites_set_semantics_counterexample:
  "\<not> one_entry_per_id (foldl apply_op
      \<lparr>items = Map.empty, readable = True, writable = True\<rparr>
      [Add \<lparr>now = 1700000000000, iso = ''2023-11-14T22:13:20.000Z''\<rparr>
         (JObj [(''name'', JStr ''Soto'')]),
       Add \<lparr>now = 1700000000000, iso = ''2023-11-14T22:13:20.000Z''\<rparr>
         (JObj [(''name'', JStr ''Soto'')])])"
proof -
  let ?st = "\<lparr>items = Map.empty, readable = True, writable = True\<rparr>"
  let ?clk = "\<lparr>now = 1700000000000, iso = ''2023-11-14T22:13:20.000Z''\<rparr>"
  let ?recipe = "JObj [(''name'', JStr ''Soto'')]"
  let ?st1 = "\<lparr>items = [FAVORITES_KEY \<mapsto> JSON_stringify (JArr [favoriteEntry ?clk ?recipe])],
               readable = True, writable = True\<rparr>"
  let ?e = "decoded (favoriteEntry ?clk ?recipe)"
  let ?st2 = "\<lparr>items = [FAVORITES_KEY \<mapsto>
                 JSON_stringify (JArr [?e, favoriteEntry ?clk ?recipe])],
               readable = True, writable = True\<rparr>"
  have eid: "field ?e ''id'' = JNum 1700000000000"
    using favoriteEntry_stored_id [of ?recipe ?clk] by (simp add: js_or_def)
  have a1: "addToFavorites ?st ?clk ?recipe = (True, ?st1)"
    by (simp add: addToFavorites_eq [OF loadFavorites_empty_store])
  have l1: "loadFavorites ?st1 = Inr (JArr [?e])"
    using loadFavorites_written [of ?st "[] @ [favoriteEntry ?clk ?recipe]"] by simp
  have a2: "addToFavorites ?st1 ?clk ?recipe = (True, ?st2)"
    using eid favoriteEntry_stored_nonnull [of ?clk ?recipe]
    by (simp add: addToFavorites_eq [OF l1])
  have l2: "loadFavorites ?st2 = Inr (JArr [decoded ?e, ?e])"
    using loadFavorites_written [of ?st1 "[?e] @ [favoriteEntry ?clk ?recipe]"] by simp
  have "decoded ?e = ?e"
    using loadFavorites_json_ok [OF l1] by (simp add: decoded_json_ok)
  with l2 eid have "\<not> one_entry_per_id ?st2"
    by (simp add: one_entry_per_id_def fav_ids_def)
  with a1 a2 show ?thesis by simp
qed

text \<open>
  C10, as the code has it. For a recipe that is an object whose \<^verbatim>\<open>id\<close> is absent or
  falsy, on a store that can be read and written and whose favorites are a list of entries
  that all have a truthy identifier, \<^verbatim>\<open>addToFavorites\<close> returns \<^verbatim>\<open>true\<close> and appends an
  entry whose identifier is the clock reading; when that reading is past the epoch, a
  second call with the same recipe appends a second entry, and the identifiers of the two
  entries differ exactly when the two clock readings do.
\<close>

theorem addToFavorites_without_identifier:
  assumes r: "readable st" and w: "writable st"
    and l: "loadFavorites st = Inr (JArr favs)"
    and ids: "\<forall>f \<in> set favs. truthy (field f ''id'')"
    and n: "\<not> nullish recipe"
    and noid: "\<not> truthy (field recipe ''id'')"
  shows "\<exists>st1 e1. addToFavorites st clk recipe = (True, st1) \<and>
           loadFavorites st1 = Inr (JArr (favs @ [e1])) \<and>
           field e1 ''id'' = JNum (int (now clk)) \<and>
           (0 < now clk \<longrightarrow>
              (\<exists>st2 e2. addToFavorites st1 clk' recipe = (True, st2) \<and>
                 loadFavorites st2 = Inr (JArr (favs @ [e1, e2])) \<and>
                 field e2 ''id'' = JNum (int (now clk')) \<and>
                 (strict_eq (field e1 ''id'') (field e2 ''id'') \<longleftrightarrow> now clk = now clk')))"
proof -
  let ?rid = "field recipe ''id''"
  have nomatch: "\<not> nullish f \<and> \<not> strict_eq (field f ''id'') ?rid" if "truthy (field f ''id'')" for f
    using that noid strict_eq_truthy [of "field f ''id''" ?rid] by (cases f) auto
  have idv: "js_or ?rid (JNum (int (now c))) = JNum (int (now c))" for c :: clock
    using noid by (simp add: js_or_def)
  obtain st1 e1 where a1: "addToFavorites st clk recipe = (True, st1)"
      and rw1: "readable st1" "writable st1"
      and l1: "loadFavorites st1 = Inr (JArr (favs @ [e1]))"
      and e1: "field e1 ''id'' = JNum (int (now clk))"
    using addToFavorites_appends [of st favs recipe clk] r w l n ids nomatch idv [of clk]
    by auto
  have second: "\<exists>st2 e2. addToFavorites st1 clk' recipe = (True, st2) \<and>
                 loadFavorites st2 = Inr (JArr (favs @ [e1, e2])) \<and>
                 field e2 ''id'' = JNum (int (now clk')) \<and>
                 (strict_eq (field e1 ''id'') (field e2 ''id'') \<longleftrightarrow> now clk = now clk')"
    if pos: "0 < now clk"
  proof -
    have "\<forall>f \<in> set (favs @ [e1]). truthy (field f ''id'')"
      using ids e1 pos by simp
    then have free: "\<forall>f \<in> set (favs @ [e1]).
        \<not> nullish f \<and> \<not> strict_eq (field f ''id'') ?rid"
      using nomatch by blast
    show ?thesis
      using addToFavorites_appends [OF rw1 l1 n free, of clk'] idv [of clk'] e1 by auto
  qed
  from a1 l1 e1 second show ?thesis
    by (intro exI [of _ st1] exI [of _ e1]) simp
qed

theorem addToFavorites_without_identifier_witness:
  "\<exists>st1 e1. addToFavorites \<lparr>items = Map.empty, readable = True, writable = True\<rparr>
       \<lparr>now = 1700000000000, iso = ''2023-11-14T22:13:20.000Z''\<rparr>
       (JObj [(''name'', JStr ''Soto'')]) = (True, st1) \<and>
     loadFavorites st1 = Inr (JArr [e1]) \<and>
     field e1 ''id'' = JNum 1700000000000 \<and>
     (\<exists>st2 e2. addToFavorites st1
         \<lparr>now = 1700000000500, iso = ''2023-11-14T22:13:20.500Z''\<rparr>
         (JObj [(''name'', JStr ''Soto'')]) = (True, st2) \<and>
       loadFavorites st2 = Inr (JArr [e1, e2]) \<and>
       field e2 ''id'' = JNum 1700000000500 \<and>
       \<not> strict_eq (field e1 ''id'') (field e2 ''id''))"
  using addToFavorites_without_identifier
    [of "\<lparr>items = Map.empty, readable = True, writable = True\<rparr>" "[]"
        "JObj [(''name'', JStr ''Soto'')]"
        "\<lparr>now = 1700000000000, iso = ''2023-11-14T22:13:20.000Z''\<rparr>"
        "\<lparr>now = 1700000000500, iso = ''2023-11-14T22:13:20.500Z''\<rparr>"]
    loadFavorites_empty_store
  by simp

text \<open>
  C10 as stated, always returning \<^verbatim>\<open>true\<close>, fails. The duplicate check compares the
  stored identifiers with the recipe's own absent one, so on a store that holds an entry
  without \<^verbatim>\<open>id\<close> the check finds that entry: the call returns \<^verbatim>\<open>false\<close> and appends
  nothing.
\<close>

theorem addToFavorites_without_identifier_counterexample:
  "addToFavorites
     \<lparr>items = [FAVORITES_KEY \<mapsto> Json (JArr [JObj [(''name'', JStr ''Lama'')]])],
      readable = True, writable = True\<rparr>
     \<lparr>now = 1700000000000, iso = ''2023-11-14T22:13:20.000Z''\<rparr>
     (JObj [(''name'', JStr ''Soto'')])
   = (False, \<lparr>items = [FAVORITES_KEY \<mapsto> Json (JArr [JObj [(''name'', JStr ''Lama'')]])],
              readable = True, writable = True\<rparr>)"
proof -
  have l: "loadFavorites
      \<lparr>items = [FAVORITES_KEY \<mapsto> Json (JArr [JObj [(''name'', JStr ''Lama'')]])],
       readable = True, writable = True\<rparr>
    = Inr (JArr [JObj [(''name'', JStr ''Lama'')]])"
    by (rule loadFavorites_array_store) simp
  show ?thesis
    by (simp add: addToFavorites_eq [OF l])
qed

subsection \<open>Reviews\<close>








text \<open>
  C8. \<^verbatim>\<open>updateReview\<close> and \<^verbatim>\<open>deleteReview\<close> are remote only: when the remote call
  fails the failure is what the caller gets, and whatever the remote outcome the local
  store is left as it was.
\<close>

theorem review_update_delete_remote_only:
  "(api_put remote (''/api/v1/reviews/'' @ to_string reviewId) reviewData = Inl err
      \<longrightarrow> updateReview remote st reviewId reviewData = (Inl err, st)) \<and>
   (api_delete remote (''/api/v1/reviews/'' @ to_string reviewId) = Inl err
      \<longrightarrow> deleteReview remote st reviewId = (Inl err, st)) \<and>
   snd (updateReview remote st reviewId reviewData) = st \<and>
   snd (deleteReview remote st reviewId) = st"
  by (auto simp: updateReview_def deleteReview_def split: sum.splits)

theorem review_update_delete_remote_only_witness:
  "updateReview failing_api
     \<lparr>items = [REVIEWS_KEY \<mapsto> Json (JArr [JObj [(''id'', JStr ''17'')]])],
      readable = True, writable = True\<rparr>
     (JStr ''17'') (JObj [(''rating'', JNum 4)])
   = (Inl (RemoteError (JObj [(''message'', JStr ''Internal Server Error'')])),
      \<lparr>items = [REVIEWS_KEY \<mapsto> Json (JArr [JObj [(''id'', JStr ''17'')]])],
       readable = True, writable = True\<rparr>) \<and>
   deleteReview failing_api
     \<lparr>items = [REVIEWS_KEY \<mapsto> Json (JArr [JObj [(''id'', JStr ''17'')]])],
      readable = True, writable = True\<rparr>
     (JStr ''17'')
   = (Inl (RemoteError (JObj [(''message'', JStr ''Internal Server Error'')])),
      \<lparr>items = [REVIEWS_KEY \<mapsto> Json (JArr [JObj [(''id'', JStr ''17'')]])],
       readable = True, writable = True\<rparr>)"
  using review_update_delete_remote_only
    [of failing_api "JStr ''17''" "JObj [(''rating'', JNum 4)]"
        "RemoteError (JObj [(''message'', JStr ''Internal Server Error'')])"
        "\<lparr>items = [REVIEWS_KEY \<mapsto> Json (JArr [JObj [(''id'', JStr ''17'')]])],
          readable = True, writable = True\<rparr>"]
  by (simp add: failing_api_def)




subsection \<open>Drafts\<close>

lemma json_ok_update:
  "json_ok (JObj fs) \<Longrightarrow> json_ok v \<Longrightarrow> json_ok (JObj (AList.update k v fs))"
  by (induction fs) auto

lemma draft_timestamp_key_differs: "draftKey d @ ''_'' @ DRAFT_TIMESTAMP_KEY \<noteq> draftKey d"
  by simp

lemma field_update:
  "field (JObj (AList.update k v fs)) k' = (if k' = k then v else field (JObj fs) k')"
  by (simp add: update_conv')

text \<open>
  C2, as the code has it. On a working store, for every draft key and every JSON object
  \<open>v\<close>, \<^verbatim>\<open>saveDraft\<close> succeeds and \<^verbatim>\<open>loadDraft\<close> then returns \<open>v\<close> with its
  \<^verbatim>\<open>savedAt\<close> property set to the time of saving: every other property reads back as
  saved.
\<close>

theorem saveDraft_loadDraft_roundtrip:
  assumes r: "readable st" and w: "writable st" and ok: "json_ok (JObj fs)"
  shows "\<exists>st' d. saveDraft st timestamp (JObj fs) draftId = (True, st') \<and>
           loadDraft st' draftId = Inr d \<and>
           d = JObj (AList.update ''savedAt'' (JStr timestamp) fs) \<and>
           field d ''savedAt'' = JStr timestamp \<and>
           (\<forall>k. k \<noteq> ''savedAt'' \<longrightarrow> field d k = field (JObj fs) k)"
proof -
  let ?d = "JObj (AList.update ''savedAt'' (JStr timestamp) fs)"
  have "json_ok ?d" using ok by (intro json_ok_update) simp_all
  then have s: "ser ?d = Some ?d" by (rule json_ok_ser)
  let ?st1 = "st\<lparr>items := (items st)(draftKey draftId \<mapsto> JSON_stringify ?d)\<rparr>"
  let ?st2 = "?st1\<lparr>items := (items ?st1)(draftKey draftId @ ''_'' @ DRAFT_TIMESTAMP_KEY
                 \<mapsto> Raw timestamp)\<rparr>"
  let ?st' = "if draftId \<noteq> ''user_profile'' \<and> draftId \<noteq> FAVORITES_KEY then ?st2 else ?st1"
  have sv: "saveDraft st timestamp (JObj fs) draftId = (True, ?st')"
    using w by (simp add: saveDraft_def setItem_def Let_def)
  have it: "items ?st' (draftKey draftId) = Some (JSON_stringify ?d)"
    using draft_timestamp_key_differs [of draftId] by simp
  have r': "readable ?st'"
    using r by simp
  obtain st' where sv: "saveDraft st timestamp (JObj fs) draftId = (True, st')"
    and it: "items st' (draftKey draftId) = Some (JSON_stringify ?d)"
    and r': "readable st'"
    using sv it r' by blast
  have "loadDraft st' draftId = Inr ?d"
    using it r' s
    by (simp add: loadDraft_def getItem_def JSON_stringify_def del: ser.simps)
  with sv show ?thesis
    by (simp add: field_update del: field.simps)
qed

theorem saveDraft_loadDraft_roundtrip_witness:
  "\<exists>st' d. saveDraft \<lparr>items = Map.empty, readable = True, writable = True\<rparr>
       ''2023-11-14T22:13:20.000Z''
       (JObj [(''name'', JStr ''Soto''), (''servings'', JNum 4)]) ''create'' = (True, st') \<and>
     loadDraft st' ''create'' = Inr d \<and>
     d = JObj [(''name'', JStr ''Soto''), (''servings'', JNum 4),
               (''savedAt'', JStr ''2023-11-14T22:13:20.000Z'')]"
  using saveDraft_loadDraft_roundtrip
    [of "\<lparr>items = Map.empty, readable = True, writable = True\<rparr>"
        "[(''name'', JStr ''Soto''), (''servings'', JNum 4)]"
        "''2023-11-14T22:13:20.000Z''" "''create''"]
  by auto

text \<open>
  C2 as stated fails: the value read back is not deep-equal to the value saved, it has the
  additional \<^verbatim>\<open>savedAt\<close> property.
\<close>

theorem saveDraft_loadDraft_roundtrip_counterexample:
  "loadDraft
     (snd (saveDraft \<lparr>items = Map.empty, readable = True, writable = True\<rparr>
        ''2023-11-14T22:13:20.000Z'' (JObj [(''name'', JStr ''Soto'')]) ''create''))
     ''create''
   = Inr (JObj [(''name'', JStr ''Soto''), (''savedAt'', JStr ''2023-11-14T22:13:20.000Z'')]) \<and>
   \<not> deep_equal
       (JObj [(''name'', JStr ''Soto''), (''savedAt'', JStr ''2023-11-14T22:13:20.000Z'')])
       (JObj [(''name'', JStr ''Soto'')])"
  by (simp add: saveDraft_def loadDraft_def setItem_def getItem_def
        JSON_stringify_def draftKey_def FAVORITES_KEY_def DRAFT_KEY_PREFIX_def
        DRAFT_TIMESTAMP_KEY_def List.map_filter_simps)

subsection \<open>Recipes\<close>

lemma map_ingredients_total:
  "\<forall>x \<in> set xs. \<not> nullish x \<Longrightarrow> \<exists>ys. map_ingredients g i xs = Inr ys"
  by (induction xs arbitrary: i) (auto simp: get_prop_def and_then_Inr_iff)

lemma map_steps_total:
  "\<forall>x \<in> set xs. \<not> nullish x \<Longrightarrow> \<exists>ys. map_steps g i xs = Inr ys"
  by (induction xs arbitrary: i) (auto simp: get_prop_def and_then_Inr_iff)





















end
